theory Spec2Isabelle
  imports Complex_Main "HOL-Library.Word"
begin

unbundle bit_operations_syntax

section \<open>Python values, exceptions and console output\<close>

text \<open>
  The values that \<open>read.py\<close> stores in \<open>data_dict\<close>: Python ints (unbounded), floats,
  strings and \<open>None\<close>. Python floats are modelled as exact reals, \<open>np.pi\<close> as \<open>pi\<close>;
  rounding of IEEE doubles is outside this model.
\<close>

datatype pyval = PInt int | PFloat real | PStr string | PNone

text \<open>
  The exceptions the code can raise: \<open>IndexError\<close> (list index), \<open>ValueError\<close>
  (\<open>int(tok, 16)\<close>, \<open>bytes(xs)\<close> with an element outside \<open>range(256)\<close>),
  \<open>struct.error\<close> (wrong buffer size) and \<open>TypeError\<close> (arithmetic on \<open>None\<close> or \<open>str\<close>).
\<close>

datatype py_exc = IndexError | ValueError | StructError | TypeError

text \<open>
  Every \<open>print\<close> of the class, in order of appearance on the console:
  \<^item> \<open>MessageHasBytes got expected raw\<close>: "Warning: Message has .. bytes, but expected .."
    (branches 129025, 127257, 127250);
  \<^item> \<open>IncompleteMessage expected got raw\<close>: "Warning: Incomplete message. .." (branch 129026);
  \<^item> \<open>InsufficientData got\<close>: "Warning: Insufficient data to decode field. Expected 2 bytes, .."
    (\<open>decode_angle_i16_field\<close>);
  \<^item> \<open>CouldNotDecode field e data\<close>: "Could not decode field .. Error: .. Data: .."
    (the \<open>except Exception\<close> handlers).
\<close>

datatype diag =
    MessageHasBytes nat nat string
  | IncompleteMessage nat nat string
  | InsufficientData nat
  | CouldNotDecode string py_exc "int list"

text \<open>The instance state: \<open>self.data_dict\<close> and what has been printed so far.\<close>

record furuno =
  data_dict :: "string \<rightharpoonup> pyval"
  printed :: "diag list"

section \<open>\<open>bytes(...)\<close> and \<open>struct.unpack\<close>\<close>

text \<open>\<open>bytes(xs)\<close> of a list of ints raises \<open>ValueError\<close> unless every element is in \<open>range(256)\<close>.\<close>

definition py_bytes :: "int list \<Rightarrow> py_exc + int list" where
  "py_bytes xs = (if list_all (\<lambda>x. 0 \<le> x \<and> x \<le> 255) xs then Inr xs else Inl ValueError)"

definition from_le :: "int list \<Rightarrow> int" where
  "from_le bs = foldr (\<lambda>b acc. b + 256 * acc) bs 0"

definition to_signed :: "nat \<Rightarrow> int \<Rightarrow> int" where
  "to_signed bits u = (if u < 2 ^ (bits - 1) then u else u - 2 ^ bits)"

text \<open>
  \<open>struct.unpack(fmt, buf)[0]\<close> for the little-endian formats \<open><H\<close>, \<open><h\<close>, \<open><I\<close>, \<open><i\<close>:
  \<open>struct.error\<close> unless the buffer has exactly the size of the format.
\<close>

definition struct_unpack :: "bool \<Rightarrow> nat \<Rightarrow> int list \<Rightarrow> py_exc + int" where
  "struct_unpack is_signed n buf =
     (if length buf = n
      then Inr (if is_signed then to_signed (8 * n) (from_le buf) else from_le buf)
      else Inl StructError)"

text \<open>\<open>struct.unpack(fmt, bytes(data))[0]\<close>: the \<open>bytes\<close> conversion comes first.\<close>

definition unpack :: "bool \<Rightarrow> nat \<Rightarrow> int list \<Rightarrow> py_exc + int" where
  "unpack is_signed n data =
     (case py_bytes data of Inl e \<Rightarrow> Inl e | Inr buf \<Rightarrow> struct_unpack is_signed n buf)"

section \<open>Calendar and clock strings\<close>

definition digit_char :: "nat \<Rightarrow> char" where
  "digit_char d = char_of (48 + d mod 10)"

definition pad2 :: "nat \<Rightarrow> string" where
  "pad2 n = (if n < 100 then [digit_char (n div 10), digit_char n]
             else [digit_char (n div 100), digit_char (n div 10), digit_char n])"

definition pad3 :: "nat \<Rightarrow> string" where
  "pad3 n = [digit_char (n div 100), digit_char (n div 10), digit_char n]"

definition pad4 :: "nat \<Rightarrow> string" where
  "pad4 n = [digit_char (n div 1000), digit_char (n div 100), digit_char (n div 10), digit_char n]"

text \<open>
  \<open>time.strftime('%Y-%m-%d', time.gmtime(days * 86400))\<close> for a 16-bit day count: the
  proleptic Gregorian date of day \<open>days\<close> after 1970-01-01 (years 1970 to 2149).
\<close>

definition strftime_ymd :: "nat \<Rightarrow> string" where
  "strftime_ymd days =
     (let z = days + 719468;
          era = z div 146097;
          doe = z - era * 146097;
          yoe = (doe - doe div 1460 + doe div 36524 - doe div 146096) div 365;
          doy = doe - (365 * yoe + yoe div 4 - yoe div 100);
          mp = (5 * doy + 2) div 153;
          d = doy - (153 * mp + 2) div 5 + 1;
          m = (if mp < 10 then mp + 3 else mp - 9);
          y = yoe + era * 400 + (if m \<le> 2 then 1 else 0)
      in pad4 y @ ''-'' @ pad2 m @ ''-'' @ pad2 d)"

text \<open>
  The f-string \<open>{hours:02}:{minutes:02}:{seconds:06.3f}\<close> of \<open>decode_time_field\<close>, for a
  count of 0.0001 s ticks, computed exactly (the source computes it on doubles); the
  seconds are rounded to three decimals, a tie to the even neighbour.
\<close>

definition format_time :: "nat \<Rightarrow> string" where
  "format_time ticks =
     (let hours = ticks div 36000000;
          minutes = (ticks mod 36000000) div 600000;
          t = ticks mod 600000;
          q = t div 10;
          r = t mod 10;
          ms = (if 5 < r \<or> (r = 5 \<and> odd q) then q + 1 else q)
      in pad2 hours @ '':'' @ pad2 minutes @ '':'' @ pad2 (ms div 1000) @ ''.'' @ pad3 (ms mod 1000))"

section \<open>Field decoders\<close>

text \<open>
  A decoder takes the slice \<open>int_data_bytes[start:start + field_length]\<close> and gives what it
  printed together with either the exception it raised or the value it returned.
\<close>

type_synonym decoder = "int list \<Rightarrow> diag list \<times> (py_exc + pyval)"

definition decode_uint8_field :: decoder where
  "decode_uint8_field data =
     ([], case data of [] \<Rightarrow> Inl IndexError | x # _ \<Rightarrow> Inr (PInt x))"

definition decode_date_field :: decoder where
  "decode_date_field data =
     ([], case unpack False 2 (take 2 data) of
            Inl e \<Rightarrow> Inl e
          | Inr days_since_1970 \<Rightarrow> Inr (PStr (strftime_ymd (nat days_since_1970))))"

definition decode_time_field :: decoder where
  "decode_time_field data =
     ([], case unpack False 4 (take 4 data) of
            Inl e \<Rightarrow> Inl e
          | Inr ticks \<Rightarrow> Inr (PStr (format_time (nat ticks))))"

definition decode_longitude_i32_field :: decoder where
  "decode_longitude_i32_field data =
     ([], case unpack True 4 (take 4 data) of
            Inl e \<Rightarrow> Inl e
          | Inr raw_value \<Rightarrow> Inr (PFloat (real_of_int raw_value * (1 / 10 ^ 7))))"

definition decode_latitude_i32_field :: decoder where
  "decode_latitude_i32_field data =
     ([], case unpack True 4 (take 4 data) of
            Inl e \<Rightarrow> Inl e
          | Inr raw_value \<Rightarrow> Inr (PFloat (real_of_int raw_value * (1 / 10 ^ 7))))"

definition decode_company_field :: decoder where
  "decode_company_field data =
     ([], case unpack False 2 (take 2 data) of Inl e \<Rightarrow> Inl e | Inr v \<Rightarrow> Inr (PInt v))"

definition decode_angle_i16_field :: decoder where
  "decode_angle_i16_field data =
     (if length data = 2
      then ([], case unpack True 2 data of
                  Inl e \<Rightarrow> Inl e
                | Inr raw_value \<Rightarrow> Inr (PFloat (real_of_int raw_value * (1 / 10 ^ 4))))
      else ([InsufficientData (length data)], Inr PNone))"

definition decode_angle_u16_field :: decoder where
  "decode_angle_u16_field data =
     ([], case unpack False 2 data of
            Inl e \<Rightarrow> Inl e
          | Inr raw_value \<Rightarrow> Inr (PFloat (real_of_int raw_value * (1 / 10 ^ 4))))"

definition decode_lookup_field :: decoder where
  "decode_lookup_field data =
     ([], case unpack False 2 data of Inl e \<Rightarrow> Inl e | Inr v \<Rightarrow> Inr (PInt v))"

definition decode_speed_u16_cm_field :: decoder where
  "decode_speed_u16_cm_field data =
     ([], case unpack False 2 data of
            Inl e \<Rightarrow> Inl e
          | Inr raw_value \<Rightarrow> Inr (PFloat (real_of_int raw_value / 100)))"

definition decode_manufacturer_field :: decoder where
  "decode_manufacturer_field data =
     ([], case data of
            d0 # d1 # _ \<Rightarrow> Inr (PInt (push_bit 3 d0 OR drop_bit 5 d1))
          | _ \<Rightarrow> Inl IndexError)"

definition decode_industry_field :: decoder where
  "decode_industry_field data =
     ([], case data of
            d0 # d1 # _ \<Rightarrow> Inr (PInt (d1 AND 7))
          | _ \<Rightarrow> Inl IndexError)"

text \<open>\<open>self.field_decoders\<close>, read with \<open>.get(field_name)\<close>.\<close>

definition field_decoders :: "string \<Rightarrow> decoder option" where
  "field_decoders = map_of
     [(''Heading'', decode_angle_u16_field),
      (''Deviation'', decode_angle_i16_field),
      (''Variation'', decode_angle_i16_field),
      (''Reference'', decode_lookup_field),
      (''SID'', decode_uint8_field),
      (''Date'', decode_date_field),
      (''Time'', decode_time_field),
      (''Latitude'', decode_latitude_i32_field),
      (''Longitude'', decode_longitude_i32_field),
      (''A'', decode_uint8_field),
      (''B'', decode_uint8_field),
      (''Yaw'', decode_angle_i16_field),
      (''Pitch'', decode_angle_i16_field),
      (''Roll'', decode_angle_i16_field)]"

section \<open>Field lists\<close>

record field =
  name :: string
  flength :: nat

definition field_list_gps :: "field list" where
  "field_list_gps =
     [\<lparr>name = ''Latitude'', flength = 4\<rparr>, \<lparr>name = ''Longitude'', flength = 4\<rparr>]"

definition field_list_cog_sog :: "field list" where
  "field_list_cog_sog =
     [\<lparr>name = ''SID'', flength = 1\<rparr>, \<lparr>name = ''COG Reference'', flength = 1\<rparr>,
      \<lparr>name = ''COG'', flength = 2\<rparr>, \<lparr>name = ''SOG'', flength = 2\<rparr>]"

definition field_list_attitude :: "field list" where
  "field_list_attitude =
     [\<lparr>name = ''SID'', flength = 1\<rparr>, \<lparr>name = ''Yaw'', flength = 2\<rparr>,
      \<lparr>name = ''Pitch'', flength = 2\<rparr>, \<lparr>name = ''Roll'', flength = 2\<rparr>]"

definition field_list_heading :: "field list" where
  "field_list_heading =
     [\<lparr>name = ''SID'', flength = 1\<rparr>, \<lparr>name = ''Heading'', flength = 2\<rparr>]"

definition expected_byte_count :: "field list \<Rightarrow> nat" where
  "expected_byte_count field_list = sum_list (map flength field_list)"

section \<open>The message id\<close>

text \<open>\<open>(msgid >> 8) & 0x3FFFF\<close> on a Python int.\<close>

definition get_pgn_from_message :: "int \<Rightarrow> int" where
  "get_pgn_from_message msgid = (let shifted_msgid = drop_bit 8 msgid in shifted_msgid AND 0x3FFFF)"

section \<open>Splitting a line and reading hexadecimal tokens\<close>

text \<open>
  A line is the \<open>str\<close> that \<open>readline().decode()\<close> returned, as the list of its characters;
  the model covers the characters with code points below 256. Those that \<open>str.split()\<close> and
  \<open>str.strip()\<close> treat as whitespace are listed in \<open>isspace\<close>.
\<close>

definition isspace :: "char \<Rightarrow> bool" where
  "isspace c = (of_char c \<in> {9, 10, 11, 12, 13, 28, 29, 30, 31, 32, 133, 160 :: nat})"

definition strip :: "string \<Rightarrow> string" where
  "strip s = rev (dropWhile isspace (rev (dropWhile isspace s)))"

text \<open>\<open>s.split()\<close>: the maximal runs of non-whitespace characters, in order.\<close>

fun split_from :: "string \<Rightarrow> string \<Rightarrow> string list" where
  "split_from cur [] = (if cur = [] then [] else [cur])"
| "split_from cur (c # cs) =
     (if isspace c then (if cur = [] then split_from [] cs else cur # split_from [] cs)
      else split_from (cur @ [c]) cs)"

definition py_split :: "string \<Rightarrow> string list" where
  "py_split s = split_from [] s"

definition hex_digit :: "char \<Rightarrow> int option" where
  "hex_digit c =
     (let n = (of_char c :: nat) in
      if 48 \<le> n \<and> n \<le> 57 then Some (int n - 48)
      else if 97 \<le> n \<and> n \<le> 102 then Some (int n - 87)
      else if 65 \<le> n \<and> n \<le> 70 then Some (int n - 55)
      else None)"

text \<open>
  The digits of \<open>int(tok, 16)\<close>: hexadecimal digits, with single underscores allowed
  between two digits only.
\<close>

fun hex_digits :: "int \<Rightarrow> string \<Rightarrow> int option" where
  "hex_digits acc [] = Some acc"
| "hex_digits acc (c # cs) =
     (if c = CHR ''_''
      then (case cs of [] \<Rightarrow> None
            | d # ds \<Rightarrow> if d = CHR ''_'' then None else hex_digits acc cs)
      else (case hex_digit c of None \<Rightarrow> None
            | Some v \<Rightarrow> hex_digits (16 * acc + v) cs))"

definition strip_sign :: "string \<Rightarrow> int \<times> string" where
  "strip_sign tok =
     (case tok of
        [] \<Rightarrow> (1, tok)
      | c # cs \<Rightarrow> if c = CHR ''+'' then (1, cs) else if c = CHR ''-'' then (- 1, cs) else (1, tok))"

definition strip_0x :: "string \<Rightarrow> string" where
  "strip_0x s =
     (case s of
        c0 # c1 # rest \<Rightarrow>
          if c0 = CHR ''0'' \<and> (c1 = CHR ''x'' \<or> c1 = CHR ''X'')
          then (case rest of [] \<Rightarrow> rest | u # r \<Rightarrow> if u = CHR ''_'' then r else rest)
          else s
      | _ \<Rightarrow> s)"

text \<open>
  \<open>int(tok, 16)\<close> on a token without whitespace: an optional sign, an optional \<open>0x\<close> or
  \<open>0X\<close> (after which one underscore may follow), then at least one digit; \<open>None\<close> stands
  for \<open>ValueError\<close>.
\<close>

definition py_int16 :: "string \<Rightarrow> int option" where
  "py_int16 tok =
     (case strip_sign tok of (sign, s1) \<Rightarrow>
        (case strip_0x s1 of
           [] \<Rightarrow> None
         | c # cs \<Rightarrow> if c = CHR ''_'' then None
                    else map_option (\<lambda>v. sign * v) (hex_digits 0 (c # cs))))"

section \<open>\<open>parse_raw_message\<close>\<close>

text \<open>
  Lines 136 to 144: split the line, read the message id and the payload tokens. The
  three indexings raise \<open>IndexError\<close> on a line of fewer than three tokens, \<open>int(.., 16)\<close>
  raises \<open>ValueError\<close>. The result is the PGN and \<open>int_data_bytes\<close>.
\<close>

definition parse_parts :: "string \<Rightarrow> py_exc + (int \<times> int list)" where
  "parse_parts message =
     (let parts = py_split message in
      if length parts < 3 then Inl IndexError
      else (case py_int16 (parts ! 2) of
              None \<Rightarrow> Inl ValueError
            | Some msgid \<Rightarrow>
                (case those (map py_int16 (drop 3 parts)) of
                   None \<Rightarrow> Inl ValueError
                 | Some int_data_bytes \<Rightarrow> Inr (get_pgn_from_message msgid, int_data_bytes))))"

text \<open>
  \<open>180 * v / np.pi\<close>: defined on numbers; \<open>180 * None\<close> and \<open>(180 * str) / np.pi\<close> raise
  \<open>TypeError\<close>.
\<close>

definition to_degrees :: "pyval \<Rightarrow> py_exc + pyval" where
  "to_degrees v =
     (case v of
        PInt i \<Rightarrow> Inr (PFloat (180 * real_of_int i / pi))
      | PFloat x \<Rightarrow> Inr (PFloat (180 * x / pi))
      | PStr s \<Rightarrow> Inl TypeError
      | PNone \<Rightarrow> Inl TypeError)"

text \<open>
  The \<open>try\<close> statement of the four loops:
  \<open>self.data_dict[field_name] = decoder(data)\<close>, with \<open>180 * .. / np.pi\<close> around the call
  when \<open>degrees\<close> is set; an exception is printed and the dictionary is left alone.
\<close>

definition try_decode :: "bool \<Rightarrow> string \<Rightarrow> decoder \<Rightarrow> int list \<Rightarrow> furuno \<Rightarrow> furuno" where
  "try_decode degrees field_name decoder data s =
     (case decoder data of (out, r) \<Rightarrow>
        (case (case r of Inl e \<Rightarrow> Inl e
                       | Inr v \<Rightarrow> if degrees then to_degrees v else Inr v) of
           Inl e \<Rightarrow> s\<lparr>printed := printed s @ out @ [CouldNotDecode field_name e data]\<rparr>
         | Inr v \<Rightarrow> s\<lparr>data_dict := (data_dict s)(field_name \<mapsto> v), printed := printed s @ out\<rparr>))"

text \<open>
  The \<open>for field in field_list\<close> loop shared by the four branches. The branches differ in
  two places only, which are the two flags:
  \<^item> \<open>skip_sid\<close>: the \<open>if not field_name == 'SID'\<close> around the \<open>try\<close> (129025, 127257,
    127250; absent in 129026);
  \<^item> \<open>degrees\<close>: the \<open>180 * .. / np.pi\<close> around the decoder call (127257, 127250).
  A field without decoder hits \<open>continue\<close>, which also skips \<open>start += field_length\<close>.
  The result is the final value of \<open>start\<close> and the state.
\<close>

fun decode_fields ::
  "bool \<Rightarrow> bool \<Rightarrow> field list \<Rightarrow> int list \<Rightarrow> nat \<Rightarrow> furuno \<Rightarrow> nat \<times> furuno" where
  "decode_fields skip_sid degrees [] int_data_bytes start s = (start, s)"
| "decode_fields skip_sid degrees (f # field_list) int_data_bytes start s =
     (case field_decoders (name f) of
        None \<Rightarrow> decode_fields skip_sid degrees field_list int_data_bytes start s
      | Some decoder \<Rightarrow>
          decode_fields skip_sid degrees field_list int_data_bytes (start + flength f)
            (if skip_sid \<and> name f = ''SID'' then s
             else try_decode degrees (name f) decoder
                    (take (flength f) (drop start int_data_bytes)) s))"

text \<open>The four branches: the length warning, then the loop from \<open>start = 0\<close>.\<close>

definition branch_gps :: "int list \<Rightarrow> string \<Rightarrow> furuno \<Rightarrow> nat \<times> furuno" where
  "branch_gps int_data_bytes message s =
     decode_fields True False field_list_gps int_data_bytes 0
       (if length int_data_bytes < expected_byte_count field_list_gps
        then s\<lparr>printed := printed s @
               [MessageHasBytes (length int_data_bytes) (expected_byte_count field_list_gps) message]\<rparr>
        else s)"

definition branch_cog_sog :: "int list \<Rightarrow> string \<Rightarrow> furuno \<Rightarrow> nat \<times> furuno" where
  "branch_cog_sog int_data_bytes message s =
     decode_fields False False field_list_cog_sog int_data_bytes 0
       (if length int_data_bytes < expected_byte_count field_list_cog_sog
        then s\<lparr>printed := printed s @
               [IncompleteMessage (expected_byte_count field_list_cog_sog) (length int_data_bytes) message]\<rparr>
        else s)"

definition branch_attitude :: "int list \<Rightarrow> string \<Rightarrow> furuno \<Rightarrow> nat \<times> furuno" where
  "branch_attitude int_data_bytes message s =
     decode_fields True True field_list_attitude int_data_bytes 0
       (if length int_data_bytes < expected_byte_count field_list_attitude
        then s\<lparr>printed := printed s @
               [MessageHasBytes (length int_data_bytes) (expected_byte_count field_list_attitude) message]\<rparr>
        else s)"

definition branch_heading :: "int list \<Rightarrow> string \<Rightarrow> furuno \<Rightarrow> nat \<times> furuno" where
  "branch_heading int_data_bytes message s =
     decode_fields True True field_list_heading int_data_bytes 0
       (if length int_data_bytes < expected_byte_count field_list_heading
        then s\<lparr>printed := printed s @
               [MessageHasBytes (length int_data_bytes) (expected_byte_count field_list_heading) message]\<rparr>
        else s)"

text \<open>Lines 146 to 266: the \<open>if\<close>/\<open>elif\<close> chain on the PGN; no \<open>else\<close>.\<close>

definition decode_pgn :: "int \<Rightarrow> int list \<Rightarrow> string \<Rightarrow> furuno \<Rightarrow> furuno" where
  "decode_pgn pgn int_data_bytes message s =
     (if pgn = 129025 then snd (branch_gps int_data_bytes message s)
      else if pgn = 129026 then snd (branch_cog_sog int_data_bytes message s)
      else if pgn = 127257 then snd (branch_attitude int_data_bytes message s)
      else if pgn = 127250 then snd (branch_heading int_data_bytes message s)
      else s)"

text \<open>
  \<open>parse_raw_message\<close>: the exception that leaves the method, if any, and the state
  afterwards.
\<close>

definition parse_raw_message :: "string \<Rightarrow> furuno \<Rightarrow> py_exc option \<times> furuno" where
  "parse_raw_message message s =
     (case parse_parts message of
        Inl e \<Rightarrow> (Some e, s)
      | Inr (pgn, int_data_bytes) \<Rightarrow> (None, decode_pgn pgn int_data_bytes message s))"

section \<open>The acquisition loop and the reader\<close>

text \<open>
  \<open>run\<close> is \<open>while True\<close> around \<open>readline\<close> and \<open>parse_raw_message\<close>, with no \<open>try\<close>: an
  exception of \<open>parse_raw_message\<close> ends the thread. The model runs the loop over the
  lines the transport delivers; \<open>(Some e, s)\<close> is a thread that died with \<open>e\<close> in state
  \<open>s\<close>, \<open>(None, s)\<close> one that consumed every line and waits for the next.
\<close>

fun run :: "string list \<Rightarrow> furuno \<Rightarrow> py_exc option \<times> furuno" where
  "run [] s = (None, s)"
| "run (raw # rest) s =
     (case parse_raw_message (strip raw) s of
        (Some e, s') \<Rightarrow> (Some e, s')
      | (None, s') \<Rightarrow> run rest s')"

text \<open>\<open>get_data\<close> returns \<open>self.data_dict.copy()\<close>: the mapping as a value.\<close>

definition get_data :: "furuno \<Rightarrow> (string \<rightharpoonup> pyval)" where
  "get_data s = data_dict s"

definition init :: furuno where
  "init = \<lparr>data_dict = Map.empty, printed = []\<rparr>"

section \<open>The PGN of a message id\<close>

lemma get_pgn_div_mod: "get_pgn_from_message msgid = (msgid div 2 ^ 8) mod 2 ^ 18"
proof -
  have "(0x3FFFF :: int) = mask 18"
    by (simp add: mask_eq_exp_minus_1)
  then have "drop_bit 8 msgid AND 0x3FFFF = take_bit 18 (drop_bit 8 msgid)"
    by (simp only: take_bit_eq_mask)
  then show ?thesis
    by (simp add: get_pgn_from_message_def drop_bit_eq_div take_bit_eq_mod)
qed

lemma get_pgn_word:
  "get_pgn_from_message (uint (w :: 32 word)) = uint (drop_bit 8 w AND 0x3FFFF)"
proof -
  have m: "(0x3FFFF :: 32 word) = mask 18"
    by (simp add: mask_eq_exp_minus_1)
  have d: "uint (drop_bit 8 w) = uint w div 2 ^ 8"
    by (simp add: unsigned_drop_bit_eq drop_bit_eq_div take_bit_eq_mod uint_div)
  have "uint (drop_bit 8 w AND 0x3FFFF) = take_bit 18 (uint (drop_bit 8 w))"
    unfolding m by (simp add: uint_and uint_mask_eq take_bit_eq_mask)
  then show ?thesis
    by (simp only: d get_pgn_div_mod take_bit_eq_mod)
qed

text \<open>
  C8. The PGN of a message id is the id shifted right by eight bits and cut to eighteen
  bits: it is \<open>(msgid div 2^8) mod 2^18\<close>, so it lies in \<open>[0, 2^18)\<close>, and on an unsigned
  32-bit message id it is the 32-bit word \<open>(w >> 8) & 0x3FFFF\<close>. It is a function of
  the message id alone.
\<close>

theorem pgn_derivation:
  "get_pgn_from_message msgid = (msgid div 2 ^ 8) mod 2 ^ 18
   \<and> 0 \<le> get_pgn_from_message msgid \<and> get_pgn_from_message msgid < 2 ^ 18
   \<and> get_pgn_from_message (uint (w :: 32 word)) = uint (drop_bit 8 w AND 0x3FFFF)"
  using get_pgn_word [of w] by (simp add: get_pgn_div_mod)

section \<open>Rules for running the model on a concrete line\<close>

lemma field_decoders_simps:
  "field_decoders ''Heading'' = Some decode_angle_u16_field"
  "field_decoders ''SID'' = Some decode_uint8_field"
  "field_decoders ''Latitude'' = Some decode_latitude_i32_field"
  "field_decoders ''Longitude'' = Some decode_longitude_i32_field"
  "field_decoders ''Yaw'' = Some decode_angle_i16_field"
  "field_decoders ''Pitch'' = Some decode_angle_i16_field"
  "field_decoders ''Roll'' = Some decode_angle_i16_field"
  "field_decoders ''COG Reference'' = None"
  "field_decoders ''COG'' = None"
  "field_decoders ''SOG'' = None"
  by (simp_all add: field_decoders_def)

lemmas line_eval =
  parse_parts_def py_split_def isspace_def py_int16_def strip_sign_def strip_0x_def
  hex_digit_def get_pgn_from_message_def strip_def

lemmas decode_eval =
  parse_raw_message_def decode_pgn_def branch_gps_def branch_cog_sog_def branch_attitude_def
  branch_heading_def field_list_gps_def field_list_cog_sog_def field_list_attitude_def
  field_list_heading_def expected_byte_count_def field_decoders_simps try_decode_def
  decode_uint8_field_def decode_latitude_i32_field_def decode_longitude_i32_field_def
  decode_angle_i16_field_def decode_angle_u16_field_def unpack_def py_bytes_def
  struct_unpack_def from_le_def to_signed_def to_degrees_def

section \<open>Whitespace around a line\<close>

lemma split_from_spaces:
  "list_all isspace ws \<Longrightarrow> split_from cur ws = (if cur = [] then [] else [cur])"
  by (induction ws arbitrary: cur) simp_all

lemma split_from_append_spaces:
  "list_all isspace ws \<Longrightarrow> split_from cur (a @ ws) = split_from cur a"
  by (induction a arbitrary: cur) (simp_all add: split_from_spaces)

lemma split_from_dropWhile: "split_from [] (dropWhile isspace s) = split_from [] s"
  by (induction s) simp_all

text \<open>\<open>strip()\<close> before \<open>split()\<close> changes nothing: \<open>split()\<close> ignores outer whitespace.\<close>

lemma py_split_strip: "py_split (strip raw) = py_split raw"
proof -
  define t where "t = dropWhile isspace raw"
  have "rev (dropWhile isspace (rev t)) @ rev (takeWhile isspace (rev t))
      = rev (takeWhile isspace (rev t) @ dropWhile isspace (rev t))"
    by (simp only: rev_append)
  also have "\<dots> = t"
    by (simp only: takeWhile_dropWhile_id rev_rev_ident)
  finally have t: "t = rev (dropWhile isspace (rev t)) @ rev (takeWhile isspace (rev t))"
    by (rule sym)
  have "list_all isspace (rev (takeWhile isspace (rev t)))"
    by (simp add: list_all_iff) (meson set_takeWhileD)
  then have "split_from [] (rev (dropWhile isspace (rev t)) @ rev (takeWhile isspace (rev t)))
      = split_from [] (rev (dropWhile isspace (rev t)))"
    by (rule split_from_append_spaces)
  with t have "split_from [] (rev (dropWhile isspace (rev t))) = split_from [] t"
    by simp
  then show ?thesis
    by (simp add: py_split_def strip_def t_def split_from_dropWhile)
qed

lemma parse_parts_strip: "parse_parts (strip raw) = parse_parts raw"
  by (simp add: parse_parts_def py_split_strip)

section \<open>Lines that do not parse\<close>

lemma those_map_None_iff:
  "those (map f xs) = None \<longleftrightarrow> list_ex (\<lambda>x. f x = None) xs"
  by (induction xs) (auto split: option.splits)

lemma parse_parts_malformed:
  assumes "length (py_split raw) < 3 \<or> py_int16 (py_split raw ! 2) = None
    \<or> list_ex (\<lambda>tok. py_int16 tok = None) (drop 3 (py_split raw))"
  shows "parse_parts raw = Inl (if length (py_split raw) < 3 then IndexError else ValueError)"
proof (cases "length (py_split raw) < 3")
  case True
  then show ?thesis by (simp add: parse_parts_def)
next
  case False
  with assms have "py_int16 (py_split raw ! 2) = None
      \<or> those (map py_int16 (drop 3 (py_split raw))) = None"
    by (simp add: those_map_None_iff)
  with False show ?thesis
    by (auto simp: parse_parts_def Let_def split: option.splits)
qed

text \<open>
  C1, as the code has it. A line with fewer than three whitespace-separated tokens, or
  whose message id token or one of whose payload tokens is not accepted by \<open>int(.., 16)\<close>,
  makes \<open>parse_raw_message\<close> raise (\<open>IndexError\<close>, otherwise \<open>ValueError\<close>) before
  anything is written: dictionary and console are as before. \<open>run\<close> does not catch
  the exception: the acquisition loop ends at that line, whatever lines follow.
\<close>

theorem malformed_line_stops_run:
  assumes "length (py_split raw) < 3 \<or> py_int16 (py_split raw ! 2) = None
    \<or> list_ex (\<lambda>tok. py_int16 tok = None) (drop 3 (py_split raw))"
  shows "parse_raw_message (strip raw) s
           = (Some (if length (py_split raw) < 3 then IndexError else ValueError), s)
       \<and> run (raw # rest) s
           = (Some (if length (py_split raw) < 3 then IndexError else ValueError), s)"
  using parse_parts_malformed [OF assms]
  by (simp add: parse_raw_message_def parse_parts_strip)

theorem malformed_line_stops_run_witness:
  "length (py_split ''x y'') < 3
   \<and> parse_raw_message (strip ''x y'') init = (Some IndexError, init)
   \<and> run [''x y'', ''t R 09F80200 07 00 00 00 00 00''] init = (Some IndexError, init)"
proof -
  have h: "length (py_split ''x y'') < 3 \<or> py_int16 (py_split ''x y'' ! 2) = None
    \<or> list_ex (\<lambda>tok. py_int16 tok = None) (drop 3 (py_split ''x y''))"
    by (simp add: line_eval)
  have l: "length (py_split ''x y'') < 3"
    by (simp add: line_eval)
  show ?thesis
    using l malformed_line_stops_run [OF h, of init "[''t R 09F80200 07 00 00 00 00 00'']"]
    by simp
qed

text \<open>
  C1 as stated fails. A two-token line kills the loop: the PGN 129026 line after it,
  which alone stores \<open>SID = 7\<close>, is never processed. And a payload token above \<open>0xFF\<close>
  is no parse error: \<open>1FF\<close> is read as 511 and stored as \<open>SID\<close>.
\<close>

theorem parse_error_not_confined_counterexample:
  "run [''x y'', ''t R 09F80200 07 00 00 00 00 00''] init = (Some IndexError, init)
   \<and> run [''t R 09F80200 07 00 00 00 00 00''] init
       = (None, init\<lparr>data_dict := [''SID'' \<mapsto> PInt 7]\<rparr>)
   \<and> parse_raw_message ''t R 09F80200 1FF 00 00 00 00 00'' init
       = (None, init\<lparr>data_dict := [''SID'' \<mapsto> PInt 511]\<rparr>)"
  by (simp add: line_eval decode_eval init_def)

section \<open>Lines of another PGN\<close>

text \<open>
  C7. A line that parses (three tokens or more, message id and payload tokens accepted by
  \<open>int(.., 16)\<close>) and whose PGN is none of 129025, 129026, 127257, 127250 changes
  nothing: no exception, the dictionary and the console are as before, and the
  acquisition loop goes on with the next line.
\<close>

theorem unknown_pgn_noop:
  assumes "parse_parts raw = Inr (pgn, int_data_bytes)"
    and "pgn \<noteq> 129025" and "pgn \<noteq> 129026" and "pgn \<noteq> 127257" and "pgn \<noteq> 127250"
  shows "parse_raw_message raw s = (None, s) \<and> run (raw # rest) s = run rest s"
  using assms by (simp add: parse_raw_message_def parse_parts_strip decode_pgn_def)

theorem unknown_pgn_noop_witness:
  "parse_parts ''t R 09F80300 01 02'' = Inr (129027, [1, 2])
   \<and> parse_raw_message ''t R 09F80300 01 02'' init = (None, init)
   \<and> run [''t R 09F80300 01 02''] init = (None, init)"
proof -
  have h: "parse_parts ''t R 09F80300 01 02'' = Inr (129027, [1, 2])"
    by (simp add: line_eval)
  show ?thesis
    using h unknown_pgn_noop [OF h, of init "[]"] by simp
qed

section \<open>Writes are overwrites\<close>

text \<open>
  What a frame writes does not depend on the dictionary it is written to: the dictionary
  after decoding is the one before, overridden by what the same frame writes to an empty
  one.
\<close>

lemma map_add_self: "(m ++ w) ++ w = m ++ (w :: 'a \<rightharpoonup> 'b)"
  by (rule ext) (simp add: map_add_def split: option.splits)

lemma try_decode_dict:
  "data_dict (try_decode dg n d data s) = data_dict s ++ data_dict (try_decode dg n d data init)"
  by (simp add: try_decode_def init_def split: prod.splits sum.splits)

lemma decode_fields_dict:
  "data_dict (snd (decode_fields sk dg fl bs st s))
     = data_dict s ++ data_dict (snd (decode_fields sk dg fl bs st init))"
proof (induction fl arbitrary: st s)
  case Nil
  show ?case by (simp add: init_def)
next
  case (Cons f fl)
  show ?case
  proof (cases "field_decoders (name f)")
    case None
    then show ?thesis using Cons.IH [of st s] by simp
  next
    case (Some d)
    define step where "step = (\<lambda>s. if sk \<and> name f = ''SID'' then s
        else try_decode dg (name f) d (take (flength f) (drop st bs)) s)"
    have step: "data_dict (step t) = data_dict t ++ data_dict (step init)" for t
      using try_decode_dict [of dg "name f" d "take (flength f) (drop st bs)" t]
      by (simp add: step_def init_def)
    have "data_dict (snd (decode_fields sk dg fl bs (st + flength f) (step s)))
        = data_dict (step s) ++ data_dict (snd (decode_fields sk dg fl bs (st + flength f) init))"
      by (rule Cons.IH)
    moreover have "data_dict (snd (decode_fields sk dg fl bs (st + flength f) (step init)))
        = data_dict (step init) ++ data_dict (snd (decode_fields sk dg fl bs (st + flength f) init))"
      by (rule Cons.IH)
    ultimately have "data_dict (snd (decode_fields sk dg fl bs (st + flength f) (step s)))
        = data_dict s ++ data_dict (snd (decode_fields sk dg fl bs (st + flength f) (step init)))"
      using step [of s] by simp
    then show ?thesis
      using Some by (simp add: step_def)
  qed
qed

lemma decode_fields_printed_irrelevant:
  "data_dict (snd (decode_fields sk dg fl bs st (s\<lparr>printed := p\<rparr>)))
     = data_dict (snd (decode_fields sk dg fl bs st s))"
  using decode_fields_dict [of sk dg fl bs st "s\<lparr>printed := p\<rparr>"]
    decode_fields_dict [of sk dg fl bs st s]
  by simp

lemma branch_dicts:
  "data_dict (snd (branch_gps bs m s))
     = data_dict (snd (decode_fields True False field_list_gps bs 0 s))"
  "data_dict (snd (branch_cog_sog bs m s))
     = data_dict (snd (decode_fields False False field_list_cog_sog bs 0 s))"
  "data_dict (snd (branch_attitude bs m s))
     = data_dict (snd (decode_fields True True field_list_attitude bs 0 s))"
  "data_dict (snd (branch_heading bs m s))
     = data_dict (snd (decode_fields True True field_list_heading bs 0 s))"
  by (simp_all add: branch_gps_def branch_cog_sog_def branch_attitude_def branch_heading_def
      decode_fields_printed_irrelevant)

lemma decode_pgn_dict:
  "data_dict (decode_pgn pgn bs m s) = data_dict s ++ data_dict (decode_pgn pgn bs m init)"
proof -
  have e: "data_dict s ++ data_dict init = data_dict s"
    by (simp add: init_def)
  show ?thesis
    using decode_fields_dict [of True False field_list_gps bs 0 s]
      decode_fields_dict [of False False field_list_cog_sog bs 0 s]
      decode_fields_dict [of True True field_list_attitude bs 0 s]
      decode_fields_dict [of True True field_list_heading bs 0 s]
    by (simp add: decode_pgn_def branch_dicts e)
qed

lemma decode_pgn_twice:
  "data_dict (decode_pgn pgn bs m (decode_pgn pgn bs m s)) = data_dict (decode_pgn pgn bs m s)"
proof -
  have "data_dict (decode_pgn pgn bs m (decode_pgn pgn bs m s))
      = (data_dict s ++ data_dict (decode_pgn pgn bs m init)) ++ data_dict (decode_pgn pgn bs m init)"
    using decode_pgn_dict [of pgn bs m "decode_pgn pgn bs m s"] decode_pgn_dict [of pgn bs m s]
    by simp
  then show ?thesis
    using decode_pgn_dict [of pgn bs m s] by (simp only: map_add_self)
qed

text \<open>
  C9. Processing the same line twice in succession leaves the dictionary, and so the copy
  that \<open>get_data\<close> returns, exactly as processing it once does: through
  \<open>parse_raw_message\<close> called twice, and through the acquisition loop fed the line twice.
\<close>

theorem same_line_twice:
  "get_data (snd (parse_raw_message raw (snd (parse_raw_message raw s))))
     = get_data (snd (parse_raw_message raw s))
   \<and> get_data (snd (run [raw, raw] s)) = get_data (snd (run [raw] s))"
  by (simp add: get_data_def parse_raw_message_def decode_pgn_twice
      split: sum.splits prod.splits)


section \<open>Two's complement\<close>

text \<open>
  \<open>to_signed\<close> reads an unsigned value of the format's width as the machine integer of
  that width: it is \<open>sint\<close> of the word.
\<close>

lemma sint_word_of_int_mod:
  "sint (word_of_int u :: 'a::len word)
     = (u + 2 ^ (LENGTH('a) - 1)) mod 2 ^ LENGTH('a) - 2 ^ (LENGTH('a) - 1)"
proof -
  have "Suc (LENGTH('a) - 1) = LENGTH('a)"
    by simp
  then show ?thesis
    by (simp only: sint_sbintrunc' signed_take_bit_eq_take_bit_shift take_bit_eq_mod)
qed

lemma to_signed_sint:
  assumes "0 \<le> u" and "u < 2 ^ LENGTH('a::len)"
  shows "to_signed LENGTH('a) u = sint (word_of_int u :: 'a word)"
proof -
  define h :: int where "h = 2 ^ (LENGTH('a) - 1)"
  have "(2::int) ^ LENGTH('a) = 2 ^ Suc (LENGTH('a) - 1)"
    by simp
  then have p: "(2::int) ^ LENGTH('a) = 2 * h"
    by (simp only: power_Suc h_def)
  have s: "sint (word_of_int u :: 'a word) = (u + h) mod (2 * h) - h"
    by (simp only: sint_word_of_int_mod p h_def)
  have t: "to_signed LENGTH('a) u = (if u < h then u else u - 2 * h)"
    by (simp only: to_signed_def p h_def)
  show ?thesis
  proof (cases "u < h")
    case True
    with assms have "(u + h) mod (2 * h) = u + h"
      by (intro mod_pos_pos_trivial) simp_all
    with True show ?thesis
      by (simp add: s t)
  next
    case False
    with assms p have "(u - h) mod (2 * h) = u - h"
      by (intro mod_pos_pos_trivial) simp_all
    moreover have "u + h = u - h + 2 * h"
      by simp
    ultimately have "(u + h) mod (2 * h) = u - h"
      by (simp only: mod_add_self2)
    with False show ?thesis
      by (simp add: s t)
  qed
qed

lemma unpack_u16:
  assumes "0 \<le> b0" "b0 \<le> 255" "0 \<le> b1" "b1 \<le> 255"
  shows "unpack False 2 [b0, b1] = Inr (b0 + 2 ^ 8 * b1)"
  using assms by (simp add: unpack_def py_bytes_def struct_unpack_def from_le_def)

lemma unpack_i16:
  assumes "0 \<le> b0" "b0 \<le> 255" "0 \<le> b1" "b1 \<le> 255"
  shows "unpack True 2 [b0, b1] = Inr (sint (word_of_int (b0 + 2 ^ 8 * b1) :: 16 word))"
proof -
  have fl: "from_le [b0, b1] = b0 + 2 ^ 8 * b1"
    by (simp add: from_le_def)
  have "0 \<le> b0 + 2 ^ 8 * b1" and "b0 + 2 ^ 8 * b1 < 2 ^ LENGTH(16)"
    using assms by simp_all
  then have "to_signed LENGTH(16) (b0 + 2 ^ 8 * b1) = sint (word_of_int (b0 + 2 ^ 8 * b1) :: 16 word)"
    by (rule to_signed_sint)
  then have ts: "to_signed (8 * 2) (from_le [b0, b1]) = sint (word_of_int (b0 + 2 ^ 8 * b1) :: 16 word)"
    by (simp only: fl) simp
  have "unpack True 2 [b0, b1] = Inr (to_signed (8 * 2) (from_le [b0, b1]))"
    using assms by (simp add: unpack_def py_bytes_def struct_unpack_def)
  then show ?thesis
    by (simp only: ts)
qed

lemma unpack_i32:
  assumes "0 \<le> b0" "b0 \<le> 255" "0 \<le> b1" "b1 \<le> 255" "0 \<le> b2" "b2 \<le> 255" "0 \<le> b3" "b3 \<le> 255"
  shows "unpack True 4 [b0, b1, b2, b3]
    = Inr (sint (word_of_int (b0 + 2 ^ 8 * b1 + 2 ^ 16 * b2 + 2 ^ 24 * b3) :: 32 word))"
proof -
  have fl: "from_le [b0, b1, b2, b3] = b0 + 2 ^ 8 * b1 + 2 ^ 16 * b2 + 2 ^ 24 * b3"
    by (simp add: from_le_def)
  have "0 \<le> b0 + 2 ^ 8 * b1 + 2 ^ 16 * b2 + 2 ^ 24 * b3"
    and "b0 + 2 ^ 8 * b1 + 2 ^ 16 * b2 + 2 ^ 24 * b3 < 2 ^ LENGTH(32)"
    using assms by simp_all
  then have "to_signed LENGTH(32) (b0 + 2 ^ 8 * b1 + 2 ^ 16 * b2 + 2 ^ 24 * b3)
      = sint (word_of_int (b0 + 2 ^ 8 * b1 + 2 ^ 16 * b2 + 2 ^ 24 * b3) :: 32 word)"
    by (rule to_signed_sint)
  then have ts: "to_signed (8 * 4) (from_le [b0, b1, b2, b3])
      = sint (word_of_int (b0 + 2 ^ 8 * b1 + 2 ^ 16 * b2 + 2 ^ 24 * b3) :: 32 word)"
    by (simp only: fl) simp
  have "unpack True 4 [b0, b1, b2, b3] = Inr (to_signed (8 * 4) (from_le [b0, b1, b2, b3]))"
    using assms by (simp add: unpack_def py_bytes_def struct_unpack_def)
  then show ?thesis
    by (simp only: ts)
qed

lemma unpack_not_2:
  "length data \<noteq> 2 \<Longrightarrow> list_all (\<lambda>b. 0 \<le> b \<and> b \<le> 255) data \<Longrightarrow>
     unpack sg 2 data = Inl StructError"
  by (simp add: unpack_def py_bytes_def struct_unpack_def)

section \<open>The loops on their field lists\<close>

lemma decode_fields_unrolled:
  "decode_fields True False field_list_gps bs 0 s =
     (8, try_decode False ''Longitude'' decode_longitude_i32_field (take 4 (drop 4 bs))
           (try_decode False ''Latitude'' decode_latitude_i32_field (take 4 bs) s))"
  "decode_fields False False field_list_cog_sog bs 0 s =
     (1, try_decode False ''SID'' decode_uint8_field (take 1 bs) s)"
  "decode_fields True True field_list_attitude bs 0 s =
     (7, try_decode True ''Roll'' decode_angle_i16_field (take 2 (drop 5 bs))
           (try_decode True ''Pitch'' decode_angle_i16_field (take 2 (drop 3 bs))
             (try_decode True ''Yaw'' decode_angle_i16_field (take 2 (drop 1 bs)) s)))"
  "decode_fields True True field_list_heading bs 0 s =
     (3, try_decode True ''Heading'' decode_angle_u16_field (take 2 (drop 1 bs)) s)"
  by (simp_all add: field_list_gps_def field_list_cog_sog_def field_list_attitude_def
      field_list_heading_def field_decoders_simps eval_nat_numeral)

lemmas loop_eval =
  parse_raw_message_def decode_pgn_def branch_gps_def branch_cog_sog_def branch_attitude_def
  branch_heading_def decode_fields_unrolled

lemmas frame_eval =
  parse_raw_message_def decode_pgn_def branch_gps_def branch_cog_sog_def branch_attitude_def
  branch_heading_def field_list_gps_def field_list_cog_sog_def field_list_attitude_def
  field_list_heading_def expected_byte_count_def field_decoders_simps try_decode_def
  decode_uint8_field_def decode_latitude_i32_field_def decode_longitude_i32_field_def
  decode_angle_i16_field_def decode_angle_u16_field_def to_degrees_def

lemma try_decode_other:
  "k \<noteq> n \<Longrightarrow> data_dict (try_decode dg n d data s) k = data_dict s k"
  by (simp add: try_decode_def split: prod.splits sum.splits)

lemma try_decode_same:
  "data_dict (try_decode dg n d data s) n =
     (case d data of
        (out, Inl e) \<Rightarrow> data_dict s n
      | (out, Inr v) \<Rightarrow>
          (case (if dg then to_degrees v else Inr v) of
             Inl e \<Rightarrow> data_dict s n
           | Inr w \<Rightarrow> Some w))"
  by (simp add: try_decode_def split: prod.splits sum.splits)

section \<open>Position frames\<close>

text \<open>
  C2. A PGN 129025 frame with a payload of exactly eight bytes writes \<open>Latitude\<close> and
  \<open>Longitude\<close>, and nothing else: each is the little-endian signed 32-bit integer of its
  four bytes (0 to 3, 4 to 7) times \<open>1e-7\<close>, with no further transform. Nothing is printed.
\<close>

theorem position_frame_decodes:
  assumes "parse_parts raw = Inr (129025, [b0, b1, b2, b3, b4, b5, b6, b7])"
    and "list_all (\<lambda>b. 0 \<le> b \<and> b \<le> 255) [b0, b1, b2, b3, b4, b5, b6, b7]"
  shows "parse_raw_message raw s = (None, s\<lparr>data_dict := (data_dict s)
      (''Latitude'' \<mapsto>
         PFloat (real_of_int (sint (word_of_int
           (b0 + 2 ^ 8 * b1 + 2 ^ 16 * b2 + 2 ^ 24 * b3) :: 32 word)) * (1 / 10 ^ 7)),
       ''Longitude'' \<mapsto>
         PFloat (real_of_int (sint (word_of_int
           (b4 + 2 ^ 8 * b5 + 2 ^ 16 * b6 + 2 ^ 24 * b7) :: 32 word)) * (1 / 10 ^ 7)))\<rparr>)"
  using assms by (simp add: frame_eval unpack_i32)

theorem position_frame_decodes_witness:
  "parse_parts ''t R 09F80100 00 00 00 80 FF FF FF FF''
     = Inr (129025, [0, 0, 0, 128, 255, 255, 255, 255])
   \<and> parse_raw_message ''t R 09F80100 00 00 00 80 FF FF FF FF'' init
     = (None, init\<lparr>data_dict :=
          [''Latitude'' \<mapsto> PFloat (- 2147483648 / 10 ^ 7), ''Longitude'' \<mapsto> PFloat (- 1 / 10 ^ 7)]\<rparr>)"
proof -
  have h: "parse_parts ''t R 09F80100 00 00 00 80 FF FF FF FF''
     = Inr (129025, [0, 0, 0, 128, 255, 255, 255, 255])"
    by (simp add: line_eval)
  have r: "list_all (\<lambda>b. 0 \<le> b \<and> b \<le> 255) [0, 0, 0, 128, 255, 255, 255, 255 :: int]"
    by simp
  show ?thesis
    using h position_frame_decodes [OF h r, of init] by (simp add: init_def)
qed

section \<open>Degrees\<close>

text \<open>
  C3. For a line of PGN 127250 or 127257, a field whose decoder returns the number \<open>x\<close>
  is stored as \<open>x * 180 / pi\<close> (\<open>Heading\<close>; \<open>Yaw\<close>, \<open>Pitch\<close>, \<open>Roll\<close>); for a line of PGN
  129025 or 129026 the decoder's result is stored as it is (\<open>Latitude\<close>, \<open>Longitude\<close>;
  \<open>SID\<close>). In particular the heading payload \<open>00 00 10\<close> stores
  \<open>(0x1000 * 1e-4) * 180 / pi\<close>.
\<close>

theorem degrees_for_attitude_and_heading_only:
  assumes "parse_parts raw = Inr (pgn, bs)"
  shows "(pgn = 127250 \<and> decode_angle_u16_field (take 2 (drop 1 bs)) = (out, Inr (PFloat x)) \<longrightarrow>
            data_dict (snd (parse_raw_message raw s)) ''Heading'' = Some (PFloat (x * (180 / pi))))
    \<and> (pgn = 127257 \<and> decode_angle_i16_field (take 2 (drop 1 bs)) = (out, Inr (PFloat x)) \<longrightarrow>
            data_dict (snd (parse_raw_message raw s)) ''Yaw'' = Some (PFloat (x * (180 / pi))))
    \<and> (pgn = 127257 \<and> decode_angle_i16_field (take 2 (drop 3 bs)) = (out, Inr (PFloat x)) \<longrightarrow>
            data_dict (snd (parse_raw_message raw s)) ''Pitch'' = Some (PFloat (x * (180 / pi))))
    \<and> (pgn = 127257 \<and> decode_angle_i16_field (take 2 (drop 5 bs)) = (out, Inr (PFloat x)) \<longrightarrow>
            data_dict (snd (parse_raw_message raw s)) ''Roll'' = Some (PFloat (x * (180 / pi))))
    \<and> (pgn = 129025 \<and> decode_latitude_i32_field (take 4 bs) = (out, Inr v) \<longrightarrow>
            data_dict (snd (parse_raw_message raw s)) ''Latitude'' = Some v)
    \<and> (pgn = 129025 \<and> decode_longitude_i32_field (take 4 (drop 4 bs)) = (out, Inr v) \<longrightarrow>
            data_dict (snd (parse_raw_message raw s)) ''Longitude'' = Some v)
    \<and> (pgn = 129026 \<and> decode_uint8_field (take 1 bs) = (out, Inr v) \<longrightarrow>
            data_dict (snd (parse_raw_message raw s)) ''SID'' = Some v)
    \<and> (pgn = 127250 \<and> bs = [0x00, 0x00, 0x10] \<longrightarrow>
            data_dict (snd (parse_raw_message raw s)) ''Heading''
              = Some (PFloat ((0x1000 * (1 / 10 ^ 4)) * (180 / pi))))"
proof -
  have ex: "decode_angle_u16_field [0x00, 0x10] = ([], Inr (PFloat (0x1000 * (1 / 10 ^ 4))))"
    by (simp add: decode_angle_u16_field_def unpack_u16)
  show ?thesis
    using assms ex
    by (simp add: loop_eval try_decode_other try_decode_same to_degrees_def)
qed

theorem degrees_for_attitude_and_heading_only_witness:
  "parse_parts ''12:00:00.000 R 09F11200 00 00 10'' = Inr (127250, [0, 0, 16])
   \<and> decode_angle_u16_field (take 2 (drop 1 [0, 0, 16])) = ([], Inr (PFloat (4096 / 10 ^ 4)))
   \<and> data_dict (snd (parse_raw_message ''12:00:00.000 R 09F11200 00 00 10'' init)) ''Heading''
       = Some (PFloat (4096 / 10 ^ 4 * (180 / pi)))
   \<and> parse_parts ''t R 09F80200 07 00 00 00 00 00'' = Inr (129026, [7, 0, 0, 0, 0, 0])
   \<and> data_dict (snd (parse_raw_message ''t R 09F80200 07 00 00 00 00 00'' init)) ''SID''
       = Some (PInt 7)"
proof -
  have h: "parse_parts ''12:00:00.000 R 09F11200 00 00 10'' = Inr (127250, [0, 0, 16])"
    by (simp add: line_eval)
  have d: "decode_angle_u16_field (take 2 (drop 1 [0, 0, 16])) = ([], Inr (PFloat (4096 / 10 ^ 4)))"
    by (simp add: decode_angle_u16_field_def unpack_u16)
  have g: "parse_parts ''t R 09F80200 07 00 00 00 00 00'' = Inr (129026, [7, 0, 0, 0, 0, 0])"
    by (simp add: line_eval)
  have u: "decode_uint8_field (take 1 [7, 0, 0, 0, 0, 0]) = ([], Inr (PInt 7))"
    by (simp add: decode_uint8_field_def)
  show ?thesis
    using h d g u
      degrees_for_attitude_and_heading_only [OF h, of "[]" "4096 / 10 ^ 4" init]
      degrees_for_attitude_and_heading_only [OF g, of "[]" _ init "PInt 7"]
    by simp
qed

section \<open>Course and speed frames\<close>

text \<open>
  C4, at the code. In the PGN 129026 branch the dictionary changes at most at \<open>SID\<close>. The
  fields \<open>COG Reference\<close>, \<open>COG\<close> and \<open>SOG\<close> have no decoder and reach \<open>continue\<close> before
  \<open>start += field_length\<close>: the offset after the loop is 1, not the 6 bytes of the field
  list, for every payload and so for the line \<open>t R 09F80200 07 00 00 00 00 00\<close>.
\<close>

theorem cog_sog_offset_stays_behind:
  "fst (branch_cog_sog bs raw s) = 1
   \<and> expected_byte_count field_list_cog_sog = 6
   \<and> data_dict (snd (branch_cog_sog bs raw s))
       = (data_dict s)(''SID'' := data_dict (snd (branch_cog_sog bs raw s)) ''SID'')
   \<and> parse_raw_message ''t R 09F80200 07 00 00 00 00 00'' init
       = (None, init\<lparr>data_dict := [''SID'' \<mapsto> PInt 7]\<rparr>)
   \<and> fst (branch_cog_sog [7, 0, 0, 0, 0, 0] ''t R 09F80200 07 00 00 00 00 00'' init) = 1"
  by (auto simp add: frame_eval line_eval init_def split: list.splits)

section \<open>Truncated attitude frames\<close>

text \<open>
  C5. A PGN 127257 frame with a payload of exactly three bytes: \<open>SID\<close> is skipped (its
  byte is never read), \<open>Yaw\<close> is decoded from bytes 1 and 2 and written (in degrees),
  \<open>Pitch\<close> and \<open>Roll\<close> keep what they had, the length warning and, for \<open>Pitch\<close> and
  \<open>Roll\<close> each, the decoder's warning and the handler's message are printed, no exception
  leaves the method, and the offset has advanced by the length of all four fields, to 7.
\<close>

theorem truncated_attitude_frame:
  assumes "parse_parts raw = Inr (127257, [b0, b1, b2])"
    and "0 \<le> b1" "b1 \<le> 255" "0 \<le> b2" "b2 \<le> 255"
  shows "parse_raw_message raw s = (None, s\<lparr>
      data_dict := (data_dict s)(''Yaw'' \<mapsto>
        PFloat (180 * (real_of_int (sint (word_of_int (b1 + 2 ^ 8 * b2) :: 16 word)) * (1 / 10 ^ 4)) / pi)),
      printed := printed s @
        [MessageHasBytes 3 7 raw,
         InsufficientData 0, CouldNotDecode ''Pitch'' TypeError [],
         InsufficientData 0, CouldNotDecode ''Roll'' TypeError []]\<rparr>)
    \<and> data_dict (snd (parse_raw_message raw s)) ''Pitch'' = data_dict s ''Pitch''
    \<and> data_dict (snd (parse_raw_message raw s)) ''Roll'' = data_dict s ''Roll''
    \<and> fst (branch_attitude [b0, b1, b2] raw s) = 7"
  using assms by (simp add: frame_eval unpack_i16)

theorem truncated_attitude_frame_witness:
  "parse_parts ''t R 09F11900 00 00 10'' = Inr (127257, [0, 0, 16])
   \<and> parse_raw_message ''t R 09F11900 00 00 10'' (init\<lparr>data_dict := [''Pitch'' \<mapsto> PFloat 1]\<rparr>)
     = (None, init\<lparr>
          data_dict := [''Pitch'' \<mapsto> PFloat 1, ''Yaw'' \<mapsto> PFloat (180 * (4096 / 10 ^ 4) / pi)],
          printed := [MessageHasBytes 3 7 ''t R 09F11900 00 00 10'',
            InsufficientData 0, CouldNotDecode ''Pitch'' TypeError [],
            InsufficientData 0, CouldNotDecode ''Roll'' TypeError []]\<rparr>)"
proof -
  have h: "parse_parts ''t R 09F11900 00 00 10'' = Inr (127257, [0, 0, 16])"
    by (simp add: line_eval)
  show ?thesis
    using h truncated_attitude_frame [OF h, of "init\<lparr>data_dict := [''Pitch'' \<mapsto> PFloat 1]\<rparr>"]
    by (simp add: init_def)
qed

section \<open>The length guard of the signed angle decoder\<close>

text \<open>
  C6. \<open>decode_angle_i16_field\<close> on a slice whose length is not 2 reports insufficient data
  (it prints the warning and returns \<open>None\<close>, which the only callers, under
  \<open>180 * .. / np.pi\<close>, turn into a failed decode that writes nothing); on two bytes it
  returns the little-endian signed 16-bit value times \<open>1e-4\<close>. No other decoder has such
  a guard: none ever prints or returns \<open>None\<close>, and \<open>decode_angle_u16_field\<close> on a wrong
  length fails inside \<open>struct.unpack\<close> instead.
\<close>

theorem angle_i16_length_guard:
  "(length data \<noteq> 2 \<longrightarrow>
      decode_angle_i16_field data = ([InsufficientData (length data)], Inr PNone)
      \<and> try_decode True field_name decode_angle_i16_field data s
          = s\<lparr>printed := printed s @
                [InsufficientData (length data), CouldNotDecode field_name TypeError data]\<rparr>)
   \<and> (0 \<le> b0 \<and> b0 \<le> 255 \<and> 0 \<le> b1 \<and> b1 \<le> 255 \<longrightarrow>
      decode_angle_i16_field [b0, b1]
        = ([], Inr (PFloat (real_of_int (sint (word_of_int (b0 + 2 ^ 8 * b1) :: 16 word))
                      * (1 / 10 ^ 4)))))
   \<and> list_all (\<lambda>d. fst (d data) = [] \<and> snd (d data) \<noteq> Inr PNone)
        [decode_angle_u16_field, decode_lookup_field, decode_uint8_field, decode_date_field,
         decode_time_field, decode_latitude_i32_field, decode_longitude_i32_field,
         decode_company_field, decode_speed_u16_cm_field, decode_manufacturer_field,
         decode_industry_field]
   \<and> (length data \<noteq> 2 \<and> list_all (\<lambda>b. 0 \<le> b \<and> b \<le> 255) data \<longrightarrow>
      decode_angle_u16_field data = ([], Inl StructError))"
proof -
  have guard: "length data \<noteq> 2 \<longrightarrow>
      decode_angle_i16_field data = ([InsufficientData (length data)], Inr PNone)
      \<and> try_decode True field_name decode_angle_i16_field data s
          = s\<lparr>printed := printed s @
                [InsufficientData (length data), CouldNotDecode field_name TypeError data]\<rparr>"
    by (simp add: decode_angle_i16_field_def try_decode_def to_degrees_def)
  have val: "0 \<le> b0 \<and> b0 \<le> 255 \<and> 0 \<le> b1 \<and> b1 \<le> 255 \<longrightarrow>
      decode_angle_i16_field [b0, b1]
        = ([], Inr (PFloat (real_of_int (sint (word_of_int (b0 + 2 ^ 8 * b1) :: 16 word))
                      * (1 / 10 ^ 4))))"
    by (simp add: decode_angle_i16_field_def unpack_i16)
  have others: "list_all (\<lambda>d. fst (d data) = [] \<and> snd (d data) \<noteq> Inr PNone)
        [decode_angle_u16_field, decode_lookup_field, decode_uint8_field, decode_date_field,
         decode_time_field, decode_latitude_i32_field, decode_longitude_i32_field,
         decode_company_field, decode_speed_u16_cm_field, decode_manufacturer_field,
         decode_industry_field]"
    by (simp add: decode_angle_u16_field_def decode_lookup_field_def decode_uint8_field_def
        decode_date_field_def decode_time_field_def decode_latitude_i32_field_def
        decode_longitude_i32_field_def decode_company_field_def decode_speed_u16_cm_field_def
        decode_manufacturer_field_def decode_industry_field_def
        split: sum.splits list.splits)
  have u16: "length data \<noteq> 2 \<and> list_all (\<lambda>b. 0 \<le> b \<and> b \<le> 255) data \<longrightarrow>
      decode_angle_u16_field data = ([], Inl StructError)"
    by (simp add: decode_angle_u16_field_def unpack_not_2)
  from guard val others u16 show ?thesis
    by (intro conjI)
qed

theorem angle_i16_length_guard_witness:
  "length [0 :: int, 16, 0] \<noteq> 2
   \<and> decode_angle_i16_field [0, 16, 0] = ([InsufficientData 3], Inr PNone)
   \<and> decode_angle_i16_field [] = ([InsufficientData 0], Inr PNone)
   \<and> decode_angle_i16_field [0, 128] = ([], Inr (PFloat (- 32768 / 10 ^ 4)))
   \<and> decode_angle_u16_field [0, 16, 0] = ([], Inl StructError)"
  using angle_i16_length_guard [of "[0, 16, 0]" "''Yaw''" init 0 128]
    angle_i16_length_guard [of "[]" "''Yaw''" init 0 128]
  by simp


end
